theory Spec2Isabelle
  imports Main "HOL-Library.Char_ord" "HOL-Library.List_Lexorder" "HOL-Library.Product_Lexorder"
begin

section \<open>Values, frames and workbooks\<close>

text \<open>
  A spreadsheet cell as pandas hands it to the scripts: a missing value (\<open>NaN\<close>; pandas
  treats \<open>None\<close> and \<open>NaN\<close> alike in \<open>dropna\<close> and in \<open>groupby(dropna=False)\<close>), a Python
  \<open>str\<close>, or a Python \<open>int\<close>. Floating-point cells are not modelled. A character is a code
  point below 256.
\<close>

datatype cell = NaN | Str string | Num int

text \<open>
  A \<open>DataFrame\<close> is its list of labelled columns, in column order; every column holds one
  cell per row. Looking a label up takes the first column that carries it.
\<close>

type_synonym dataframe = "(string \<times> cell list) list"

text \<open>An \<open>ExcelFile\<close>: its sheets by name, in workbook order.\<close>

type_synonym workbook = "(string \<times> dataframe) list"

definition nrows :: "dataframe \<Rightarrow> nat" where
  "nrows data = (case data of [] \<Rightarrow> 0 | (c, vs) # rest \<Rightarrow> length vs)"

text \<open>
  The exceptions of the model: \<open>KeyError\<close> with the labels that are not columns (from
  \<open>groupby\<close> and \<open>agg\<close>), \<open>TypeError\<close> from \<open>str.join\<close>, \<open>ValueError\<close> for a sheet
  that is not in the workbook, \<open>ExecuteError\<close> from a geoprocessing tool.
\<close>

datatype py_error = KeyError "string list" | TypeError | ValueError | ExecuteError

text \<open>
  What the scripts do to the outside world, in order: the messages sent to the ArcGIS host
  (or printed), the geoprocessing tools called, and the spreadsheet written by \<open>to_excel\<close>.
\<close>

datatype event =
    AddMessage string
  | AddWarning string
  | AddError string
  | Print string
  | ToExcel string dataframe
  | ExcelToTable string string
  | AddJoin string string string string
  | CopyFeatures string string

section \<open>Python strings\<close>

text \<open>\<open>str.isspace\<close> on one character, for code points below 256.\<close>

definition isspace :: "char \<Rightarrow> bool" where
  "isspace c =
     (let n = (of_char c :: nat)
      in (9 \<le> n \<and> n \<le> 13) \<or> (28 \<le> n \<and> n \<le> 32) \<or> n = 133 \<or> n = 160)"

text \<open>\<open>str.strip()\<close>: leading and trailing whitespace removed.\<close>

definition strip :: "string \<Rightarrow> string" where
  "strip s = rev (dropWhile isspace (rev (dropWhile isspace s)))"

text \<open>\<open>sep.join(parts)\<close> on strings.\<close>

fun join :: "string \<Rightarrow> string list \<Rightarrow> string" where
  "join sep [] = []"
| "join sep [x] = x"
| "join sep (x # y # ys) = x @ sep @ join sep (y # ys)"

text \<open>The quoted \<open>'{x}'\<close> of the scripts' f-strings.\<close>

definition quoted :: "string \<Rightarrow> string" where
  "quoted s = [CHR 0x27] @ s @ [CHR 0x27]"

fun digits :: "nat \<Rightarrow> string" where
  "digits n =
     (if n < 10 then [char_of (48 + n)]
      else digits (n div 10) @ [char_of (48 + n mod 10)])"

declare digits.simps [simp del]

text \<open>\<open>str(x)\<close> of a cell.\<close>

fun py_str :: "cell \<Rightarrow> string" where
  "py_str (Str s) = s"
| "py_str (Num i) = (if i < 0 then CHR ''-'' # digits (nat (- i)) else digits (nat i))"
| "py_str NaN = ''nan''"

fun is_str :: "cell \<Rightarrow> bool" where
  "is_str (Str s) = True"
| "is_str v = False"

text \<open>
  \<open>sep.join(values)\<close> on raw cells: Python raises \<open>TypeError\<close> at the first item that is
  not a \<open>str\<close>.
\<close>

definition str_join :: "string \<Rightarrow> cell list \<Rightarrow> py_error + string" where
  "str_join sep xs =
     (if list_all is_str xs then Inr (join sep (map py_str xs)) else Inl TypeError)"

section \<open>The pandas operations the scripts call\<close>

text \<open>\<open>data.columns = data.columns.str.strip()\<close>\<close>

definition strip_columns :: "dataframe \<Rightarrow> dataframe" where
  "strip_columns data = map (\<lambda>(c, vs). (strip c, vs)) data"

text \<open>
  The invariant of a frame read from a sheet that the scripts rely on: the labels are
  pairwise different once trimmed, so that a label selects exactly one column, and all
  columns have the length of the index.
\<close>

definition frame_ok :: "dataframe \<Rightarrow> bool" where
  "frame_ok data =
     (distinct (map (\<lambda>(c, vs). strip c) data)
      \<and> list_all (\<lambda>(c, vs). length vs = nrows data) data)"

text \<open>\<open>Series.dropna()\<close>\<close>

definition dropna :: "cell list \<Rightarrow> cell list" where
  "dropna x = filter (\<lambda>v. v \<noteq> NaN) x"

text \<open>
  \<open>Series.unique()\<close>: one scan that keeps a value when it has not been seen before, so
  the result is in order of appearance.
\<close>

fun unique_from :: "'a list \<Rightarrow> 'a list \<Rightarrow> 'a list" where
  "unique_from seen [] = []"
| "unique_from seen (x # xs) =
     (if x \<in> set seen then unique_from seen xs else x # unique_from (x # seen) xs)"

definition unique :: "'a list \<Rightarrow> 'a list" where
  "unique xs = unique_from [] xs"

text \<open>
  The order in which \<open>groupby\<close> sorts its group labels (the scripts leave \<open>sort\<close> at its
  default, \<open>True\<close>): numbers ascending, then strings in code-point order, and with
  \<open>dropna=False\<close> the missing label last.
\<close>

fun key_order :: "cell \<Rightarrow> nat \<times> int \<times> string" where
  "key_order (Num n) = (0, n, [])"
| "key_order (Str s) = (1, 0, s)"
| "key_order NaN = (2, 0, [])"

text \<open>The group labels of a key column: one per distinct value, \<open>NaN\<close> included, sorted.\<close>

definition group_keys :: "cell list \<Rightarrow> cell list" where
  "group_keys keys = sort_key key_order (unique keys)"

text \<open>The values of a column in the rows of group \<open>k\<close>, in row order.\<close>

definition group_values :: "cell \<Rightarrow> cell list \<Rightarrow> cell list \<Rightarrow> cell list" where
  "group_values k keys vals = map snd (filter (\<lambda>p. fst p = k) (zip keys vals))"

text \<open>Results of one aggregation function over all groups; the first exception wins.\<close>

fun collect :: "('e + 'a) list \<Rightarrow> 'e + 'a list" where
  "collect [] = Inr []"
| "collect (r # rs) =
     (case r of
        Inl e \<Rightarrow> Inl e
      | Inr v \<Rightarrow> (case collect rs of Inl e \<Rightarrow> Inl e | Inr vs \<Rightarrow> Inr (v # vs)))"

text \<open>\<open>DataFrame.rename(columns=m)\<close>\<close>

definition rename :: "(string \<times> string) list \<Rightarrow> dataframe \<Rightarrow> dataframe" where
  "rename m data =
     map (\<lambda>(c, vs). (case map_of m c of None \<Rightarrow> c | Some c' \<Rightarrow> c', vs)) data"

section \<open>The aggregation\<close>

text \<open>The three aggregation lambdas of \<open>aggregate_data\<close>.\<close>

definition agg_name :: "cell list \<Rightarrow> py_error + cell" where
  "agg_name x = map_sum id Str (str_join '';'' (unique (dropna x)))"

definition agg_acres :: "cell list \<Rightarrow> py_error + cell" where
  "agg_acres x = Inr (Str (join '','' (map py_str (unique (dropna x)))))"

text \<open>
  \<open>data.groupby([group_column], dropna=False).agg({...}).reset_index()\<close>: a missing
  grouping column or a missing aggregated column is a \<open>KeyError\<close>; otherwise one row per
  group label, each aggregated column computed by its lambda on the group's values.
\<close>

definition groupby_agg :: "string \<Rightarrow> dataframe \<Rightarrow> py_error + dataframe" where
  "groupby_agg group_column data =
     (case map_of data group_column of
        None \<Rightarrow> Inl (KeyError [group_column])
      | Some keys \<Rightarrow>
          (case (map_of data ''Name'', map_of data ''Acres in Unit'', map_of data ''Gross acres'') of
             (Some names, Some acres, Some gross) \<Rightarrow>
               (let ks = group_keys keys in
                case collect (map (\<lambda>k. agg_name (group_values k keys names)) ks) of
                  Inl e \<Rightarrow> Inl e
                | Inr ns \<Rightarrow>
                    (case collect (map (\<lambda>k. agg_acres (group_values k keys acres)) ks) of
                       Inl e \<Rightarrow> Inl e
                     | Inr as \<Rightarrow>
                         (case collect (map (\<lambda>k. agg_acres (group_values k keys gross)) ks) of
                            Inl e \<Rightarrow> Inl e
                          | Inr gs \<Rightarrow>
                              Inr [(group_column, ks), (''Name'', ns),
                                   (''Acres in Unit'', as), (''Gross acres'', gs)])))
           | other \<Rightarrow>
               Inl (KeyError (filter (\<lambda>c. map_of data c = None)
                      [''Acres in Unit'', ''Gross acres'', ''Name'']))))"

text \<open>
  The transform shared by the three scripts (\<open>To_Run_In_ArcGIS.py\<close> lines 48 to 58, the
  \<open>Copy\<close> and \<open>Updated\<close> scripts lines 23 to 34 and 21 to 32): group, aggregate, rename.
\<close>

definition aggregate :: "string \<Rightarrow> dataframe \<Rightarrow> py_error + dataframe" where
  "aggregate group_column data =
     map_sum id
       (rename [(''Name'', ''Names''), (''Acres in Unit'', ''Acres in Unit''),
                (''Gross acres'', ''Gross Acres'')])
       (groupby_agg group_column data)"

text \<open>\<open>data[c] = ""\<close> when \<open>c\<close> is not a column, with its warning.\<close>

definition fill_missing :: "string \<Rightarrow> string \<Rightarrow> dataframe \<Rightarrow> event list \<times> dataframe" where
  "fill_missing c input_file data =
     (if c \<notin> set (map fst data)
      then ([AddWarning (quoted c @ '' column is missing in '' @ input_file
                          @ ''. Filling with empty strings.'')],
            data @ [(c, replicate (nrows data) (Str ''''))])
      else ([], data))"

text \<open>
  The sheet and the grouping column \<open>aggregate_data\<close> of \<open>To_Run_In_ArcGIS.py\<close> settles on
  (its \<open>if\<close>/\<open>elif\<close> chains, lines 17 to 23 and 29 to 35); \<open>None\<close> is the \<open>else\<close> branch.
\<close>

definition resolve_sheet :: "workbook \<Rightarrow> string option" where
  "resolve_sheet xl =
     (if ''Mapping'' \<in> set (map fst xl) then Some ''Mapping''
      else if ''Lead List'' \<in> set (map fst xl) then Some ''Lead List''
      else None)"

definition resolve_group_column :: "dataframe \<Rightarrow> string option" where
  "resolve_group_column data =
     (if ''Tax Map Parcel ID'' \<in> set (map fst data) then Some ''Tax Map Parcel ID''
      else if ''TPIN'' \<in> set (map fst data) then Some ''TPIN''
      else None)"

text \<open>
  \<open>aggregate_data\<close> of \<open>To_Run_In_ArcGIS.py\<close>. The workbook \<open>xl\<close> is what
  \<open>pd.ExcelFile(input_file)\<close> read. The function returns nothing; the result is the
  trace of its effects and whether an exception left it.
\<close>

definition aggregate_data :: "string \<Rightarrow> workbook \<Rightarrow> string \<Rightarrow> event list \<times> (py_error + unit)" where
  "aggregate_data input_file xl output_file =
     (let t0 = [AddMessage (''Loading sheet names from '' @ input_file @ ''...'')]
      in case resolve_sheet xl of
           None \<Rightarrow>
             (t0 @ [AddError (''Neither 'Mapping' nor 'Lead List' sheet is present in ''
                              @ input_file @ ''.'')], Inr ())
         | Some sheet_name \<Rightarrow>
             (let t1 = t0 @ [AddMessage (''Using '' @ quoted sheet_name @ '' sheet for processing.'')]
              in case map_of xl sheet_name of
                   None \<Rightarrow> (t1, Inl ValueError)
                 | Some parsed \<Rightarrow>
                     (let data = strip_columns parsed
                      in case resolve_group_column data of
                           None \<Rightarrow>
                             (t1 @ [AddError (''Neither 'Tax Map Parcel ID' nor 'TPIN' column is present in ''
                                              @ input_file @ ''.'')], Inr ())
                         | Some group_column \<Rightarrow>
                             (let t2 = t1 @ [AddMessage (''Using '' @ quoted group_column
                                                         @ '' as the grouping column.'')];
                                  (w1, data1) = fill_missing ''Acres in Unit'' input_file data;
                                  (w2, data2) = fill_missing ''Gross acres'' input_file data1;
                                  t3 = t2 @ w1 @ w2 @ [AddMessage ''Aggregating data...'']
                              in case aggregate group_column data2 of
                                   Inl e \<Rightarrow> (t3, Inl e)
                                 | Inr aggregated_data \<Rightarrow>
                                     (t3 @ [AddMessage (''Saving aggregated data to '' @ output_file @ ''...''),
                                            ToExcel output_file aggregated_data,
                                            AddMessage (''Aggregation complete for '' @ input_file @ ''!'')],
                                      Inr ())))))"

text \<open>
  \<open>aggregate_data\<close> of the \<open>Copy\<close> script (the \<open>Updated\<close> script differs in the printed
  texts only): a fixed grouping column, no check of the sheet or the columns.
\<close>

definition aggregate_data_copy ::
  "string \<Rightarrow> workbook \<Rightarrow> string \<Rightarrow> string \<Rightarrow> event list \<times> (py_error + unit)" where
  "aggregate_data_copy input_file xl output_file sheet_name =
     (let t0 = [Print (''Loading data from '' @ input_file @ ''...'')]
      in case map_of xl sheet_name of
           None \<Rightarrow> (t0, Inl ValueError)
         | Some parsed \<Rightarrow>
             (let data = strip_columns parsed;
                  t1 = t0 @ [Print ''Aggregating data...'']
              in case aggregate ''Tax Map Parcel ID'' data of
                   Inl e \<Rightarrow> (t1, Inl e)
                 | Inr aggregated_data \<Rightarrow>
                     (t1 @ [Print (''Saving aggregated data to '' @ output_file @ ''...''),
                            ToExcel output_file aggregated_data,
                            Print (''Aggregation complete for '' @ input_file @ ''!'')],
                      Inr ())))"

section \<open>The join and the batch loop of \<open>To_Run_In_ArcGIS.py\<close>\<close>

text \<open>
  What the script cannot decide by itself while one file is processed: whether a
  geoprocessing tool raises, the field names \<open>arcpy.ListFields\<close> reports for the layer
  after the join, \<open>os.path.splitext(p)[0]\<close>, the output path
  \<open>os.path.join(output_directory, "aggregated_" + basename)\<close> and the text \<open>str(e)\<close> of
  an exception.
\<close>

record environment =
  tool_raises :: "event \<Rightarrow> bool"
  list_fields :: "string \<Rightarrow> string list"
  splitext_root :: "string \<Rightarrow> string"
  output_path :: "string \<Rightarrow> string"
  exception_text :: "py_error \<Rightarrow> string"

definition required_fields :: "string list" where
  "required_fields = [''Names'', ''Acres in Unit'', ''Gross Acres'']"

definition join_to_shapefile ::
  "environment \<Rightarrow> string \<Rightarrow> string \<Rightarrow> string \<Rightarrow> string \<Rightarrow> event list \<times> (py_error + unit)" where
  "join_to_shapefile env shapefile excel_file group_column output_layer =
     (let t0 = [AddMessage (''Joining data from '' @ excel_file @ '' to '' @ shapefile @ ''...'')];
          excel_table = splitext_root env excel_file @ ''.dbf''
      in if tool_raises env (ExcelToTable excel_file excel_table) then (t0, Inl ExecuteError)
         else if tool_raises env (AddJoin shapefile group_column excel_table group_column)
         then (t0 @ [ExcelToTable excel_file excel_table], Inl ExecuteError)
         else
           (let t1 = t0 @ [ExcelToTable excel_file excel_table,
                           AddJoin shapefile group_column excel_table group_column,
                           AddMessage ''Join operation completed.''];
                joined_fields = list_fields env shapefile;
                missing_fields = filter (\<lambda>field. field \<notin> set joined_fields) required_fields
            in if missing_fields \<noteq> []
               then (t1 @ [AddError (''Join validation failed. Missing fields: ''
                                     @ join '', '' missing_fields @ ''.'')], Inr ())
               else
                 (let t2 = t1 @ [AddMessage (''Join validation passed. Exporting to ''
                                             @ output_layer @ ''...'')]
                  in if tool_raises env (CopyFeatures shapefile output_layer)
                     then (t2, Inl ExecuteError)
                     else (t2 @ [CopyFeatures shapefile output_layer,
                                 AddMessage (''Joined data saved to '' @ output_layer @ ''.'')],
                           Inr ()))))"



section \<open>The specification's notions\<close>

text \<open>
  Deduplication preserving first-seen order, in the specification's words: the value at a
  position is kept exactly when it does not occur at an earlier position.
\<close>

definition first_seen :: "'a list \<Rightarrow> 'a list" where
  "first_seen xs =
     map (\<lambda>i. xs ! i) (filter (\<lambda>i. xs ! i \<notin> set (take i xs)) [0..<length xs])"


text \<open>The data model's type of a name: a string, or missing.\<close>

definition name_ok :: "cell \<Rightarrow> bool" where
  "name_ok v = (v = NaN \<or> is_str v)"

text \<open>The specification's example table, with an all-missing gross-acreage column.\<close>

definition smith_jones :: dataframe where
  "smith_jones =
     [(''TPIN'', [Str ''A1'', Str ''A1'', Str ''A1'']),
      (''Name'', [Str ''Smith'', Str ''Smith'', Str ''Jones'']),
      (''Acres in Unit'', [Str ''10'', Str ''10'', Str ''5'']),
      (''Gross acres'', [NaN, NaN, NaN])]"

text \<open>
  A table with a missing identifier in two rows, identifiers of both types, names out of
  alphabetical order and acreages of both types.
\<close>

definition parcels :: dataframe where
  "parcels =
     [(''TPIN'', [Str ''B1'', Str ''A1'', NaN, Str ''A1'', Num 7, NaN]),
      (''Name'', [Str ''Zed'', Str ''Smith'', Str ''Doe'', Str ''Jones'', NaN, Str ''Doe'']),
      (''Acres in Unit'', [Num 3, Str ''10'', NaN, Num 5, Num (- 12), NaN]),
      (''Gross acres'', [NaN, Str ''40'', NaN, Str ''40'', NaN, NaN])]"

text \<open>The same table with a number where the second row's name should be.\<close>

definition parcels_numeric_name :: dataframe where
  "parcels_numeric_name =
     [(''TPIN'', [Str ''B1'', Str ''A1'', NaN, Str ''A1'', Num 7, NaN]),
      (''Name'', [Str ''Zed'', Num 42, Str ''Doe'', Str ''Jones'', NaN, Str ''Doe'']),
      (''Acres in Unit'', [Num 3, Str ''10'', NaN, Num 5, Num (- 12), NaN]),
      (''Gross acres'', [NaN, Str ''40'', NaN, Str ''40'', NaN, NaN])]"

text \<open>
  A host where no tool raises and the joined layer reports only \<open>FID\<close> and \<open>Names\<close>.
\<close>

definition host_names_only :: environment where
  "host_names_only =
     \<lparr>tool_raises = (\<lambda>e. False),
      list_fields = (\<lambda>layer. [''FID'', ''Names'']),
      splitext_root = (\<lambda>p. take (length p - 5) p),
      output_path = (\<lambda>p. ''out/aggregated_'' @ p),
      exception_text = (\<lambda>e. ''error'')\<rparr>"

text \<open>
  A sheet's headers with whitespace put around them: \<open>pads\<close> gives, per column, what is
  put before and after the header; \<open>all_space\<close> says that a pair holds whitespace only.
\<close>

definition pad_columns :: "(string \<times> string) list \<Rightarrow> dataframe \<Rightarrow> dataframe" where
  "pad_columns pads data = map (\<lambda>((l, r), (c, vs)). (l @ c @ r, vs)) (zip pads data)"

definition all_space :: "string \<times> string \<Rightarrow> bool" where
  "all_space p = (list_all isspace (fst p) \<and> list_all isspace (snd p))"


section \<open>Lemmas on the pandas operations\<close>

lemma set_unique_from: "set (unique_from seen xs) = set xs - set seen"
  by (induction xs arbitrary: seen) auto

lemma distinct_unique_from: "distinct (unique_from seen xs)"
  by (induction xs arbitrary: seen) (auto simp: set_unique_from)

lemma set_unique [simp]: "set (unique xs) = set xs"
  by (simp add: unique_def set_unique_from)

lemma distinct_unique [simp]: "distinct (unique xs)"
  by (simp add: unique_def distinct_unique_from)



lemma unique_distinct_id: "distinct xs \<Longrightarrow> unique xs = xs"
proof -
  have "distinct xs \<Longrightarrow> set seen \<inter> set xs = {} \<Longrightarrow> unique_from seen xs = xs" for seen
    by (induction xs arbitrary: seen) auto
  then show "distinct xs \<Longrightarrow> unique xs = xs" by (simp add: unique_def)
qed

lemma collect_Inr: "collect (map (\<lambda>k. Inr (f k)) ks) = Inr (map f ks)"
  by (induction ks) auto

lemma collect_Inl:
  "\<exists>k\<in>set ks. g k = Inl e \<Longrightarrow> \<forall>k\<in>set ks. g k = Inl e \<or> (\<exists>v. g k = Inr v)
     \<Longrightarrow> collect (map g ks) = Inl e"
proof (induction ks)
  case Nil
  then show ?case by simp
next
  case (Cons a ks)
  show ?case
  proof (cases "g a")
    case (Inl x)
    with Cons.prems(2) show ?thesis by simp
  next
    case (Inr v)
    with Cons.prems have "\<exists>k\<in>set ks. g k = Inl e" by auto
    with Cons.IH Cons.prems(2) have "collect (map g ks) = Inl e" by simp
    with Inr show ?thesis by simp
  qed
qed

lemma key_order_inj: "key_order a = key_order b \<Longrightarrow> a = b"
  by (cases a; cases b) auto

lemma set_group_keys [simp]: "set (group_keys keys) = set keys"
  by (simp add: group_keys_def)

lemma distinct_group_keys [simp]: "distinct (group_keys keys)"
  by (simp add: group_keys_def)

lemma length_group_keys: "length (group_keys keys) = card (set keys)"
  using distinct_card[of "group_keys keys"] by simp

lemma sorted_group_keys: "sorted (map key_order (group_keys keys))"
  by (simp add: group_keys_def)

lemma strict_sorted_group_keys: "sorted_wrt (\<lambda>a b. key_order a < key_order b) (group_keys keys)"
proof -
  have "distinct (map key_order (group_keys keys))"
    by (simp add: distinct_map inj_on_def key_order_inj)
  then have "sorted_wrt (<) (map key_order (group_keys keys))"
    using sorted_group_keys strict_sorted_iff by blast
  then show ?thesis by (simp add: sorted_wrt_map)
qed

lemma group_keys_id: "distinct ks \<Longrightarrow> sorted (map key_order ks) \<Longrightarrow> group_keys ks = ks"
  by (simp add: group_keys_def unique_distinct_id sort_key_id_if_sorted)


lemma set_group_values: "set (group_values k keys vals) \<subseteq> set vals"
  by (auto simp: group_values_def dest: set_zip_rightD)

lemma names_all_str:
  assumes "list_all name_ok names"
  shows "list_all is_str (unique (dropna (group_values k keys names)))"
proof -
  have "v \<in> set (dropna (group_values k keys names)) \<Longrightarrow> is_str v" for v
    using assms set_group_values[of k keys names]
    by (auto simp: dropna_def list_all_iff name_ok_def)
  then show ?thesis by (simp add: list_all_iff)
qed

lemma agg_name_ok:
  "list_all name_ok names \<Longrightarrow>
   agg_name (group_values k keys names)
     = Inr (Str (join '';'' (map py_str (unique (dropna (group_values k keys names))))))"
  by (simp add: agg_name_def str_join_def names_all_str)

lemma groupby_agg_ok:
  assumes "map_of data gc = Some keys"
    and "map_of data ''Name'' = Some names"
    and "map_of data ''Acres in Unit'' = Some acres"
    and "map_of data ''Gross acres'' = Some gross"
    and "list_all name_ok names"
  shows "groupby_agg gc data =
    Inr [(gc, group_keys keys),
         (''Name'', map (\<lambda>k. Str (join '';'' (map py_str (unique (dropna (group_values k keys names))))))
                     (group_keys keys)),
         (''Acres in Unit'', map (\<lambda>k. Str (join '','' (map py_str (unique (dropna (group_values k keys acres))))))
                     (group_keys keys)),
         (''Gross acres'', map (\<lambda>k. Str (join '','' (map py_str (unique (dropna (group_values k keys gross))))))
                     (group_keys keys))]"
  using assms
  by (simp add: groupby_agg_def agg_name_ok collect_Inr agg_acres_def Let_def)

lemma rename_output:
  assumes "gc = ''Tax Map Parcel ID'' \<or> gc = ''TPIN''"
  shows "rename [(''Name'', ''Names''), (''Acres in Unit'', ''Acres in Unit''),
                (''Gross acres'', ''Gross Acres'')]
           [(gc, ks), (''Name'', ns), (''Acres in Unit'', as), (''Gross acres'', gs)]
         = [(gc, ks), (''Names'', ns), (''Acres in Unit'', as), (''Gross Acres'', gs)]"
  using assms by (auto simp: rename_def)

lemma aggregate_ok:
  assumes "gc = ''Tax Map Parcel ID'' \<or> gc = ''TPIN''"
    and "map_of data gc = Some keys"
    and "map_of data ''Name'' = Some names"
    and "map_of data ''Acres in Unit'' = Some acres"
    and "map_of data ''Gross acres'' = Some gross"
    and "list_all name_ok names"
  shows "aggregate gc data =
    Inr [(gc, group_keys keys),
         (''Names'', map (\<lambda>k. Str (join '';'' (map py_str (unique (dropna (group_values k keys names))))))
                     (group_keys keys)),
         (''Acres in Unit'', map (\<lambda>k. Str (join '','' (map py_str (unique (dropna (group_values k keys acres))))))
                     (group_keys keys)),
         (''Gross Acres'', map (\<lambda>k. Str (join '','' (map py_str (unique (dropna (group_values k keys gross))))))
                     (group_keys keys))]"
  unfolding aggregate_def groupby_agg_ok[OF assms(2-6)]
  by (simp add: rename_output[OF assms(1)])

lemma map_of_zip_map:
  "k \<in> set ks \<Longrightarrow> map_of (zip ks (map f ks)) k = Some (f k)"
  by (induction ks) auto

section \<open>The aggregated fields\<close>






section \<open>Rows of the output\<close>

lemma frame_ok_parcels: "frame_ok parcels"
  by code_simp

lemma parcels_columns:
  "map_of parcels ''TPIN'' = Some [Str ''B1'', Str ''A1'', NaN, Str ''A1'', Num 7, NaN]"
  "map_of parcels ''Name'' = Some [Str ''Zed'', Str ''Smith'', Str ''Doe'', Str ''Jones'', NaN, Str ''Doe'']"
  "map_of parcels ''Acres in Unit'' = Some [Num 3, Str ''10'', NaN, Num 5, Num (- 12), NaN]"
  "map_of parcels ''Gross acres'' = Some [NaN, Str ''40'', NaN, Str ''40'', NaN, NaN]"
  by (simp_all add: parcels_def)

lemma parcels_names_ok:
  "list_all name_ok [Str ''Zed'', Str ''Smith'', Str ''Doe'', Str ''Jones'', NaN, Str ''Doe'']"
  by (simp add: name_ok_def)

lemma tpin_accepted: "''TPIN'' = ''Tax Map Parcel ID'' \<or> ''TPIN'' = ''TPIN''"
  by simp

text \<open>
  Claim C2. For every well-formed table on which the aggregation runs, the output has one
  row per distinct value of the grouping column: its key column holds every value of the
  input's grouping column exactly once, the missing identifier \<open>NaN\<close> included when a row
  has it, and every output column has that many rows.
\<close>

theorem one_row_per_distinct_key:
  assumes "frame_ok data"
    and "group_column = ''Tax Map Parcel ID'' \<or> group_column = ''TPIN''"
    and "map_of data group_column = Some keys"
    and "map_of data ''Name'' = Some names"
    and "map_of data ''Acres in Unit'' = Some acres"
    and "map_of data ''Gross acres'' = Some gross"
    and "list_all name_ok names"
  shows "\<exists>out ks.
           aggregate group_column data = Inr out
         \<and> map_of out group_column = Some ks
         \<and> distinct ks \<and> set ks = set keys
         \<and> nrows out = card (set keys)
         \<and> list_all (\<lambda>(c, vs). length vs = card (set keys)) out"
proof (intro exI conjI)
  show "aggregate group_column data = Inr
     [(group_column, group_keys keys),
      (''Names'', map (\<lambda>k. Str (join '';'' (map py_str (unique (dropna (group_values k keys names))))))
                   (group_keys keys)),
      (''Acres in Unit'', map (\<lambda>k. Str (join '','' (map py_str (unique (dropna (group_values k keys acres))))))
                   (group_keys keys)),
      (''Gross Acres'', map (\<lambda>k. Str (join '','' (map py_str (unique (dropna (group_values k keys gross))))))
                   (group_keys keys))]"
    (is "_ = Inr ?out")
    by (rule aggregate_ok[OF assms(2-7)])
  show "map_of ?out group_column = Some (group_keys keys)" by simp
  show "distinct (group_keys keys)" by simp
  show "set (group_keys keys) = set keys" by simp
  show "nrows ?out = card (set keys)" by (simp add: nrows_def length_group_keys)
  show "list_all (\<lambda>(c, vs). length vs = card (set keys)) ?out"
    by (simp add: length_group_keys)
qed

theorem one_row_per_distinct_key_witness:
  "\<exists>out ks.
     aggregate ''TPIN'' parcels = Inr out
   \<and> map_of out ''TPIN'' = Some ks
   \<and> distinct ks \<and> set ks = set [Str ''B1'', Str ''A1'', NaN, Str ''A1'', Num 7, NaN]
   \<and> nrows out = card (set [Str ''B1'', Str ''A1'', NaN, Str ''A1'', Num 7, NaN])
   \<and> list_all (\<lambda>(c, vs). length vs = card (set [Str ''B1'', Str ''A1'', NaN, Str ''A1'', Num 7, NaN])) out"
  by (rule one_row_per_distinct_key
        [OF frame_ok_parcels tpin_accepted parcels_columns parcels_names_ok])

text \<open>
  Claim C3, as stated, fails: the scripts call \<open>groupby\<close> with its default \<open>sort=True\<close>,
  so a key that appears first in the source (\<open>B\<close>) comes after a smaller key that
  appears later (\<open>A\<close>).
\<close>

theorem first_appearance_order_counterexample:
  "aggregate ''TPIN''
     [(''TPIN'', [Str ''B'', Str ''A'']),
      (''Name'', [Str ''Zed'', Str ''Smith'']),
      (''Acres in Unit'', [Str ''1'', Str ''2'']),
      (''Gross acres'', [Str ''3'', Str ''4''])]
   = Inr [(''TPIN'', [Str ''A'', Str ''B'']),
          (''Names'', [Str ''Smith'', Str ''Zed'']),
          (''Acres in Unit'', [Str ''2'', Str ''1'']),
          (''Gross Acres'', [Str ''4'', Str ''3''])]
   \<and> first_seen [Str ''B'', Str ''A''] = [Str ''B'', Str ''A'']"
  by code_simp

text \<open>
  Claim C3, amended. For every well-formed table on which the aggregation runs, the rows
  of the output are in strictly ascending order of the group key, in the order of
  \<open>groupby\<close>: numbers by value, then strings by code points, the missing key last.
\<close>

theorem rows_in_ascending_key_order:
  assumes "frame_ok data"
    and "group_column = ''Tax Map Parcel ID'' \<or> group_column = ''TPIN''"
    and "map_of data group_column = Some keys"
    and "map_of data ''Name'' = Some names"
    and "map_of data ''Acres in Unit'' = Some acres"
    and "map_of data ''Gross acres'' = Some gross"
    and "list_all name_ok names"
  shows "\<exists>ks ns as gs.
           aggregate group_column data
             = Inr [(group_column, ks), (''Names'', ns), (''Acres in Unit'', as), (''Gross Acres'', gs)]
         \<and> sorted_wrt (\<lambda>a b. key_order a < key_order b) ks
         \<and> set ks = set keys"
  unfolding aggregate_ok[OF assms(2-7)]
  using strict_sorted_group_keys[of keys] set_group_keys[of keys] by blast

theorem rows_in_ascending_key_order_witness:
  "\<exists>ks ns as gs.
     aggregate ''TPIN'' parcels
       = Inr [(''TPIN'', ks), (''Names'', ns), (''Acres in Unit'', as), (''Gross Acres'', gs)]
   \<and> sorted_wrt (\<lambda>a b. key_order a < key_order b) ks
   \<and> set ks = set [Str ''B1'', Str ''A1'', NaN, Str ''A1'', Num 7, NaN]"
  by (rule rows_in_ascending_key_order
        [OF frame_ok_parcels tpin_accepted parcels_columns parcels_names_ok])

section \<open>Types of the aggregated values\<close>

lemma column_length:
  assumes "frame_ok data" and "map_of data c = Some vs"
  shows "length vs = nrows data"
proof -
  from assms(2) have "(c, vs) \<in> set data" by (rule map_of_SomeD)
  with assms(1) show ?thesis by (auto simp: frame_ok_def list_all_iff)
qed

lemma in_group_values:
  "i < length keys \<Longrightarrow> i < length vals \<Longrightarrow> vals ! i \<in> set (group_values (keys ! i) keys vals)"
proof -
  assume "i < length keys" "i < length vals"
  then have "(keys ! i, vals ! i) \<in> set (zip keys vals)"
    by (auto simp: set_zip)
  then have "(keys ! i, vals ! i) \<in> set (filter (\<lambda>p. fst p = keys ! i) (zip keys vals))"
    by simp
  then show ?thesis
    unfolding group_values_def by (metis image_eqI set_map snd_conv)
qed

lemma agg_name_cases:
  "agg_name x = Inl TypeError \<or> (\<exists>v. agg_name x = Inr v)"
  by (simp add: agg_name_def str_join_def)

lemma agg_name_TypeError:
  "v \<in> set x \<Longrightarrow> \<not> name_ok v \<Longrightarrow> agg_name x = Inl TypeError"
  by (auto simp: agg_name_def str_join_def list_all_iff name_ok_def dropna_def)

lemma groupby_agg_TypeError:
  assumes "frame_ok data"
    and "map_of data gc = Some keys"
    and "map_of data ''Name'' = Some names"
    and "map_of data ''Acres in Unit'' = Some acres"
    and "map_of data ''Gross acres'' = Some gross"
    and "\<not> list_all name_ok names"
  shows "groupby_agg gc data = Inl TypeError"
proof -
  from assms(6) obtain i where i: "i < length names" "\<not> name_ok (names ! i)"
    by (auto simp: list_all_iff in_set_conv_nth)
  have len: "length keys = length names"
    using column_length[OF assms(1)] assms(2,3) by simp
  have "names ! i \<in> set (group_values (keys ! i) keys names)"
    using i(1) len by (intro in_group_values) simp_all
  then have bad: "agg_name (group_values (keys ! i) keys names) = Inl TypeError"
    using i(2) by (rule agg_name_TypeError)
  have "keys ! i \<in> set (group_keys keys)"
    using i(1) len by simp
  with bad have "\<exists>k\<in>set (group_keys keys). agg_name (group_values k keys names) = Inl TypeError"
    by blast
  then have "collect (map (\<lambda>k. agg_name (group_values k keys names)) (group_keys keys)) = Inl TypeError"
    by (rule collect_Inl) (simp add: agg_name_cases)
  then show ?thesis
    using assms(2-5) by (simp add: groupby_agg_def Let_def)
qed

text \<open>
  Claim C9. On a well-formed table with the four columns, the aggregation succeeds when
  every \<open>Name\<close> value is a string or missing, whatever the types of the values in the two
  acreage columns; and when some \<open>Name\<close> value is neither, it raises \<open>TypeError\<close>.
\<close>

theorem names_must_be_strings_acreages_any_type:
  assumes "frame_ok data"
    and "group_column = ''Tax Map Parcel ID'' \<or> group_column = ''TPIN''"
    and "map_of data group_column = Some keys"
    and "map_of data ''Name'' = Some names"
    and "map_of data ''Acres in Unit'' = Some acres"
    and "map_of data ''Gross acres'' = Some gross"
  shows "(list_all name_ok names \<longrightarrow> (\<exists>out. aggregate group_column data = Inr out))
       \<and> (\<not> list_all name_ok names \<longrightarrow> aggregate group_column data = Inl TypeError)"
proof (intro conjI impI)
  assume "list_all name_ok names"
  from aggregate_ok[OF assms(2-6) this]
  show "\<exists>out. aggregate group_column data = Inr out" by blast
next
  assume "\<not> list_all name_ok names"
  from groupby_agg_TypeError[OF assms(1) assms(3-6) this]
  show "aggregate group_column data = Inl TypeError"
    by (simp add: aggregate_def)
qed

theorem names_must_be_strings_acreages_any_type_witness:
  "(\<exists>out. aggregate ''TPIN'' parcels = Inr out)
   \<and> aggregate ''TPIN'' parcels_numeric_name = Inl TypeError"
proof
  show "\<exists>out. aggregate ''TPIN'' parcels = Inr out"
    using names_must_be_strings_acreages_any_type
            [OF frame_ok_parcels tpin_accepted parcels_columns] parcels_names_ok
    by blast
next
  have "frame_ok parcels_numeric_name" by code_simp
  moreover have
    "map_of parcels_numeric_name ''TPIN'' = Some [Str ''B1'', Str ''A1'', NaN, Str ''A1'', Num 7, NaN]"
    "map_of parcels_numeric_name ''Name'' = Some [Str ''Zed'', Num 42, Str ''Doe'', Str ''Jones'', NaN, Str ''Doe'']"
    "map_of parcels_numeric_name ''Acres in Unit'' = Some [Num 3, Str ''10'', NaN, Num 5, Num (- 12), NaN]"
    "map_of parcels_numeric_name ''Gross acres'' = Some [NaN, Str ''40'', NaN, Str ''40'', NaN, NaN]"
    by (simp_all add: parcels_numeric_name_def)
  moreover have
    "\<not> list_all name_ok [Str ''Zed'', Num 42, Str ''Doe'', Str ''Jones'', NaN, Str ''Doe'']"
    by (simp add: name_ok_def)
  ultimately show "aggregate ''TPIN'' parcels_numeric_name = Inl TypeError"
    using names_must_be_strings_acreages_any_type[OF _ tpin_accepted] by blast
qed

lemma all_null_joined:
  "set vals \<subseteq> {NaN} \<Longrightarrow> join sep (map py_str (unique (dropna vals))) = ''''"
proof -
  assume "set vals \<subseteq> {NaN}"
  then have "dropna vals = []"
    by (auto simp: dropna_def filter_empty_conv)
  then show ?thesis by (simp add: unique_def)
qed

text \<open>
  Claim C10. For every group whose values in an aggregated column are all missing, the
  output string of that column is the empty string: the group keeps its row, and the
  field is a string, not \<open>NaN\<close>.
\<close>

theorem all_null_group_gives_empty_string:
  assumes "frame_ok data"
    and "group_column = ''Tax Map Parcel ID'' \<or> group_column = ''TPIN''"
    and "map_of data group_column = Some keys"
    and "map_of data ''Name'' = Some names"
    and "map_of data ''Acres in Unit'' = Some acres"
    and "map_of data ''Gross acres'' = Some gross"
    and "list_all name_ok names"
    and "k \<in> set keys"
  shows "\<exists>ks ns as gs.
           aggregate group_column data
             = Inr [(group_column, ks), (''Names'', ns), (''Acres in Unit'', as), (''Gross Acres'', gs)]
         \<and> k \<in> set ks
         \<and> (set (group_values k keys names) \<subseteq> {NaN} \<longrightarrow> map_of (zip ks ns) k = Some (Str ''''))
         \<and> (set (group_values k keys acres) \<subseteq> {NaN} \<longrightarrow> map_of (zip ks as) k = Some (Str ''''))
         \<and> (set (group_values k keys gross) \<subseteq> {NaN} \<longrightarrow> map_of (zip ks gs) k = Some (Str ''''))"
proof -
  let ?ks = "group_keys keys"
  let ?f = "\<lambda>sep vals k. Str (join sep (map py_str (unique (dropna (group_values k keys vals)))))"
  have out: "aggregate group_column data
      = Inr [(group_column, ?ks), (''Names'', map (?f '';'' names) ?ks),
             (''Acres in Unit'', map (?f '','' acres) ?ks), (''Gross Acres'', map (?f '','' gross) ?ks)]"
    by (rule aggregate_ok[OF assms(2-7)])
  have k: "k \<in> set ?ks" using assms(8) by simp
  have row: "map_of (zip ?ks (map (?f sep vals) ?ks)) k = Some (Str '''')"
    if "set (group_values k keys vals) \<subseteq> {NaN}" for sep vals
    using map_of_zip_map[OF k, of "?f sep vals"] all_null_joined[OF that, of sep] by simp
  show ?thesis
  proof (intro exI conjI impI)
    show "aggregate group_column data
      = Inr [(group_column, ?ks), (''Names'', map (?f '';'' names) ?ks),
             (''Acres in Unit'', map (?f '','' acres) ?ks), (''Gross Acres'', map (?f '','' gross) ?ks)]"
      by (rule out)
    show "k \<in> set ?ks" by (rule k)
  qed (erule row)+
qed

theorem all_null_group_gives_empty_string_witness:
  "\<exists>ks ns as gs.
     aggregate ''TPIN'' parcels
       = Inr [(''TPIN'', ks), (''Names'', ns), (''Acres in Unit'', as), (''Gross Acres'', gs)]
   \<and> Num 7 \<in> set ks
   \<and> map_of (zip ks ns) (Num 7) = Some (Str '''')
   \<and> map_of (zip ks gs) (Num 7) = Some (Str '''')"
proof -
  have k: "Num 7 \<in> set [Str ''B1'', Str ''A1'', NaN, Str ''A1'', Num 7, NaN]" by simp
  have n: "set (group_values (Num 7) [Str ''B1'', Str ''A1'', NaN, Str ''A1'', Num 7, NaN]
                 [Str ''Zed'', Str ''Smith'', Str ''Doe'', Str ''Jones'', NaN, Str ''Doe'']) \<subseteq> {NaN}"
    by (simp add: group_values_def)
  have g: "set (group_values (Num 7) [Str ''B1'', Str ''A1'', NaN, Str ''A1'', Num 7, NaN]
                 [NaN, Str ''40'', NaN, Str ''40'', NaN, NaN]) \<subseteq> {NaN}"
    by (simp add: group_values_def)
  show ?thesis
    using all_null_group_gives_empty_string
            [OF frame_ok_parcels tpin_accepted parcels_columns parcels_names_ok k] n g
    by blast
qed

section \<open>Validation of the join\<close>

text \<open>
  Claim C8. When the table conversion and the join have run and some of \<open>Names\<close>,
  \<open>Acres in Unit\<close>, \<open>Gross Acres\<close> is not among the fields of the joined layer,
  \<open>join_to_shapefile\<close> ends with the error that lists exactly the missing fields, in the
  order of the required list, and returns before the export: \<open>CopyFeatures\<close> is not called.
\<close>

theorem join_validation_blocks_export:
  assumes "\<not> tool_raises env (ExcelToTable excel_file (splitext_root env excel_file @ ''.dbf''))"
    and "\<not> tool_raises env
            (AddJoin shapefile join_column (splitext_root env excel_file @ ''.dbf'') join_column)"
    and "missing = filter (\<lambda>field. field \<notin> set (list_fields env shapefile))
                     [''Names'', ''Acres in Unit'', ''Gross Acres'']"
    and "missing \<noteq> []"
  shows "join_to_shapefile env shapefile excel_file join_column output_layer
           = ([AddMessage (''Joining data from '' @ excel_file @ '' to '' @ shapefile @ ''...''),
               ExcelToTable excel_file (splitext_root env excel_file @ ''.dbf''),
               AddJoin shapefile join_column (splitext_root env excel_file @ ''.dbf'') join_column,
               AddMessage ''Join operation completed.'',
               AddError (''Join validation failed. Missing fields: '' @ join '', '' missing @ ''.'')],
              Inr ())
       \<and> CopyFeatures shapefile output_layer
            \<notin> set (fst (join_to_shapefile env shapefile excel_file join_column output_layer))"
proof -
  have "join_to_shapefile env shapefile excel_file join_column output_layer
           = ([AddMessage (''Joining data from '' @ excel_file @ '' to '' @ shapefile @ ''...''),
               ExcelToTable excel_file (splitext_root env excel_file @ ''.dbf''),
               AddJoin shapefile join_column (splitext_root env excel_file @ ''.dbf'') join_column,
               AddMessage ''Join operation completed.'',
               AddError (''Join validation failed. Missing fields: '' @ join '', '' missing @ ''.'')],
              Inr ())"
    using assms by (simp add: join_to_shapefile_def required_fields_def Let_def)
  then show ?thesis by simp
qed

theorem join_validation_blocks_export_witness:
  "join_to_shapefile host_names_only ''parcels.shp'' ''a.xlsx'' ''TPIN'' ''joined.shp''
     = ([AddMessage ''Joining data from a.xlsx to parcels.shp...'',
         ExcelToTable ''a.xlsx'' ''a.dbf'',
         AddJoin ''parcels.shp'' ''TPIN'' ''a.dbf'' ''TPIN'',
         AddMessage ''Join operation completed.'',
         AddError ''Join validation failed. Missing fields: Acres in Unit, Gross Acres.''],
        Inr ())
   \<and> CopyFeatures ''parcels.shp'' ''joined.shp''
        \<notin> set (fst (join_to_shapefile host_names_only ''parcels.shp'' ''a.xlsx'' ''TPIN'' ''joined.shp''))"
proof -
  have m: "[''Acres in Unit'', ''Gross Acres'']
             = filter (\<lambda>field. field \<notin> set (list_fields host_names_only ''parcels.shp''))
                 [''Names'', ''Acres in Unit'', ''Gross Acres'']"
    by (simp add: host_names_only_def)
  have r1: "\<not> tool_raises host_names_only
               (ExcelToTable ''a.xlsx'' (splitext_root host_names_only ''a.xlsx'' @ ''.dbf''))"
    by (simp add: host_names_only_def)
  have r2: "\<not> tool_raises host_names_only
               (AddJoin ''parcels.shp'' ''TPIN'' (splitext_root host_names_only ''a.xlsx'' @ ''.dbf'') ''TPIN'')"
    by (simp add: host_names_only_def)
  have s: "splitext_root host_names_only ''a.xlsx'' = ''a''"
    by (simp add: host_names_only_def)
  show ?thesis
    using join_validation_blocks_export[OF r1 r2 m, of "''joined.shp''"]
    by (simp add: s)
qed

section \<open>Trimmed headers\<close>

lemma dropWhile_all: "list_all P xs \<Longrightarrow> dropWhile P (xs @ ys) = dropWhile P ys"
  by (simp add: dropWhile_append2 list_all_iff)

lemma strip_left: "list_all isspace l \<Longrightarrow> strip (l @ s) = strip s"
  by (simp add: strip_def dropWhile_all)

lemma strip_right:
  assumes "list_all isspace r"
  shows "strip (s @ r) = strip s"
proof (cases "list_all isspace s")
  case True
  with assms have e: "dropWhile isspace (s @ r) = []" "dropWhile isspace s = []"
    by (simp_all add: dropWhile_eq_Nil_conv list_all_iff)
  show ?thesis unfolding strip_def e by simp
next
  case False
  then obtain x where "x \<in> set s" "\<not> isspace x"
    by (auto simp: list_all_iff)
  then have "dropWhile isspace (s @ r) = dropWhile isspace s @ r"
    by (simp add: dropWhile_append1)
  then show ?thesis
    using assms unfolding strip_def by (simp add: dropWhile_all)
qed

lemma strip_padded:
  "list_all isspace l \<Longrightarrow> list_all isspace r \<Longrightarrow> strip (l @ c @ r) = strip c"
  by (simp add: strip_left strip_right)

lemma strip_columns_pad:
  "length pads = length data \<Longrightarrow> list_all all_space pads \<Longrightarrow>
   strip_columns (pad_columns pads data) = strip_columns data"
proof (induction pads data rule: list_induct2)
  case Nil
  then show ?case by (simp add: pad_columns_def strip_columns_def)
next
  case (Cons p pads d data)
  then show ?case
    by (cases p; cases d)
       (simp add: pad_columns_def strip_columns_def all_space_def strip_padded)
qed

lemma aggregate_data_strip_only:
  assumes "map fst xl' = map fst xl"
    and "\<And>n. map_option strip_columns (map_of xl' n) = map_option strip_columns (map_of xl n)"
  shows "aggregate_data input_file xl' output_file = aggregate_data input_file xl output_file"
proof -
  have rs: "resolve_sheet xl' = resolve_sheet xl"
    by (simp add: resolve_sheet_def assms(1))
  show ?thesis
  proof (cases "resolve_sheet xl")
    case None
    then show ?thesis by (simp add: aggregate_data_def rs)
  next
    case (Some s)
    show ?thesis
    proof (cases "map_of xl s")
      case None
      with assms(2)[of s] have "map_of xl' s = None" by simp
      with None Some show ?thesis by (simp add: aggregate_data_def rs)
    next
      case (Some d)
      with assms(2)[of s] obtain d' where d': "map_of xl' s = Some d'" "strip_columns d' = strip_columns d"
        by (cases "map_of xl' s") auto
      with Some \<open>resolve_sheet xl = Some s\<close> show ?thesis
        by (simp add: aggregate_data_def rs)
    qed
  qed
qed

lemma aggregate_data_copy_strip_only:
  assumes "\<And>n. map_option strip_columns (map_of xl' n) = map_option strip_columns (map_of xl n)"
  shows "aggregate_data_copy input_file xl' output_file sheet
           = aggregate_data_copy input_file xl output_file sheet"
proof (cases "map_of xl sheet")
  case None
  with assms[of sheet] have "map_of xl' sheet = None" by simp
  with None show ?thesis by (simp add: aggregate_data_copy_def)
next
  case (Some d)
  with assms[of sheet] obtain d' where "map_of xl' sheet = Some d'" "strip_columns d' = strip_columns d"
    by (cases "map_of xl' sheet") auto
  with Some show ?thesis by (simp add: aggregate_data_copy_def)
qed

lemma map_of_padded_sheet:
  assumes "strip_columns d' = strip_columns d"
  shows "map_option strip_columns (map_of (xl1 @ (s, d') # xl2) n)
           = map_option strip_columns (map_of (xl1 @ (s, d) # xl2) n)"
  using assms by (induction xl1) auto

text \<open>
  Claim C6. Surrounding whitespace in the headers of a sheet changes nothing: with any
  whitespace put before and after each header (\<open>pad_columns\<close>), \<open>aggregate_data\<close> has the
  same effects and the same result as on the sheet with the bare headers, in the ArcGIS
  script and in the \<open>Copy\<close> script, because both trim every header before any lookup.
\<close>

theorem headers_are_trimmed_before_lookup:
  assumes "length pads = length data"
    and "list_all all_space pads"
  shows "aggregate_data input_file (xl1 @ (sheet, pad_columns pads data) # xl2) output_file
           = aggregate_data input_file (xl1 @ (sheet, data) # xl2) output_file
       \<and> aggregate_data_copy input_file (xl1 @ (sheet, pad_columns pads data) # xl2) output_file s
           = aggregate_data_copy input_file (xl1 @ (sheet, data) # xl2) output_file s"
proof
  note eq = strip_columns_pad[OF assms]
  show "aggregate_data input_file (xl1 @ (sheet, pad_columns pads data) # xl2) output_file
           = aggregate_data input_file (xl1 @ (sheet, data) # xl2) output_file"
    by (rule aggregate_data_strip_only, simp, rule map_of_padded_sheet[OF eq])
  show "aggregate_data_copy input_file (xl1 @ (sheet, pad_columns pads data) # xl2) output_file s
           = aggregate_data_copy input_file (xl1 @ (sheet, data) # xl2) output_file s"
    by (rule aggregate_data_copy_strip_only, rule map_of_padded_sheet[OF eq])
qed


theorem headers_are_trimmed_before_lookup_witness:
  "aggregate_data ''a.xlsx''
     [(''Mapping'', [('' Tax Map Parcel ID '', [Str ''A1'', Str ''A1'']),
                     (''Name  '', [Str ''Smith'', Str ''Jones'']),
                     ([CHR 0x09] @ ''Acres in Unit'', [Str ''10'', Str ''5''])])] ''o.xlsx''
   = aggregate_data ''a.xlsx''
     [(''Mapping'', [(''Tax Map Parcel ID'', [Str ''A1'', Str ''A1'']),
                     (''Name'', [Str ''Smith'', Str ''Jones'']),
                     (''Acres in Unit'', [Str ''10'', Str ''5''])])] ''o.xlsx''
   \<and> aggregate_data_copy ''a.xlsx''
     [(''Mapping'', [('' Tax Map Parcel ID '', [Str ''A1'', Str ''A1'']),
                     (''Name  '', [Str ''Smith'', Str ''Jones'']),
                     ([CHR 0x09] @ ''Acres in Unit'', [Str ''10'', Str ''5''])])] ''o.xlsx'' ''Mapping''
   = aggregate_data_copy ''a.xlsx''
     [(''Mapping'', [(''Tax Map Parcel ID'', [Str ''A1'', Str ''A1'']),
                     (''Name'', [Str ''Smith'', Str ''Jones'']),
                     (''Acres in Unit'', [Str ''10'', Str ''5''])])] ''o.xlsx'' ''Mapping''"
proof -
  let ?pads = "[('' '', '' ''), ([], ''  ''), ([CHR 0x09], [])]"
  let ?data = "[(''Tax Map Parcel ID'', [Str ''A1'', Str ''A1'']),
                (''Name'', [Str ''Smith'', Str ''Jones'']),
                (''Acres in Unit'', [Str ''10'', Str ''5''])]"
  have len: "length ?pads = length ?data" by simp
  have sp: "list_all all_space ?pads" by (simp add: all_space_def isspace_def)
  have pad: "pad_columns ?pads ?data
               = [('' Tax Map Parcel ID '', [Str ''A1'', Str ''A1'']),
                  (''Name  '', [Str ''Smith'', Str ''Jones'']),
                  ([CHR 0x09] @ ''Acres in Unit'', [Str ''10'', Str ''5''])]"
    by (simp add: pad_columns_def)
  show ?thesis
    using headers_are_trimmed_before_lookup
            [OF len sp, of "''a.xlsx''" "[]" "''Mapping''" "[]" "''o.xlsx''" "''Mapping''"]
    unfolding pad by simp
qed

section \<open>Missing columns\<close>



lemma fst_fill_missing:
  "fst (fill_missing c input_file data)
     = (if c \<in> set (map fst data) then []
        else [AddWarning (quoted c @ '' column is missing in '' @ input_file
                          @ ''. Filling with empty strings.'')])"
  by (simp add: fill_missing_def)




lemma resolve_group_column_accepted:
  "resolve_group_column data = Some gc \<Longrightarrow>
   (gc = ''Tax Map Parcel ID'' \<or> gc = ''TPIN'') \<and> gc \<in> set (map fst data)"
  by (auto simp: resolve_group_column_def split: if_splits)

text \<open>
  What \<open>aggregate_data\<close> does once the sheet and the grouping column are settled: the two
  acreage columns are filled in when absent, and the shared transform runs.
\<close>

lemma aggregate_data_resolved:
  assumes "resolve_sheet xl = Some sheet"
    and "map_of xl sheet = Some parsed"
    and "resolve_group_column (strip_columns parsed) = Some gc"
  shows "aggregate_data input_file xl output_file =
    (let data = strip_columns parsed;
         data1 = snd (fill_missing ''Acres in Unit'' input_file data);
         data2 = snd (fill_missing ''Gross acres'' input_file data1);
         t3 = [AddMessage (''Loading sheet names from '' @ input_file @ ''...''),
               AddMessage (''Using '' @ quoted sheet @ '' sheet for processing.''),
               AddMessage (''Using '' @ quoted gc @ '' as the grouping column.'')]
              @ fst (fill_missing ''Acres in Unit'' input_file data)
              @ fst (fill_missing ''Gross acres'' input_file data1)
              @ [AddMessage ''Aggregating data...'']
     in case aggregate gc data2 of
          Inl e \<Rightarrow> (t3, Inl e)
        | Inr aggregated_data \<Rightarrow>
            (t3 @ [AddMessage (''Saving aggregated data to '' @ output_file @ ''...''),
                   ToExcel output_file aggregated_data,
                   AddMessage (''Aggregation complete for '' @ input_file @ ''!'')],
             Inr ()))"
  using assms
  by (simp add: aggregate_data_def Let_def split_beta split: sum.splits)







section \<open>Sheet, grouping column and the batch loop\<close>



lemma aggregate_data_no_sheet:
  assumes "resolve_sheet xl = None"
  shows "aggregate_data f xl out
           = ([AddMessage (''Loading sheet names from '' @ f @ ''...''),
               AddError (''Neither 'Mapping' nor 'Lead List' sheet is present in '' @ f @ ''.'')],
              Inr ())"
  using assms by (simp add: aggregate_data_def)

lemma aggregate_data_no_column:
  assumes "resolve_sheet xl = Some s" and "map_of xl s = Some d"
    and "resolve_group_column (strip_columns d) = None"
  shows "aggregate_data f xl out
           = ([AddMessage (''Loading sheet names from '' @ f @ ''...''),
               AddMessage (''Using '' @ quoted s @ '' sheet for processing.''),
               AddError (''Neither 'Tax Map Parcel ID' nor 'TPIN' column is present in '' @ f @ ''.'')],
              Inr ())"
  using assms by (simp add: aggregate_data_def)









section \<open>Aggregating an aggregated table\<close>

lemma collect_Inr_D:
  "collect rs = Inr vs \<Longrightarrow> rs = map Inr vs"
  by (induction rs arbitrary: vs) (auto split: sum.splits)

lemma agg_name_Inr_D: "agg_name x = Inr v \<Longrightarrow> is_str v"
  by (auto simp: agg_name_def str_join_def split: if_splits)

lemma agg_acres_Inr_D: "agg_acres x = Inr v \<Longrightarrow> is_str v"
  by (auto simp: agg_acres_def)

lemma collect_all_str:
  assumes "collect (map g ks) = Inr vs" and "\<And>k v. g k = Inr v \<Longrightarrow> is_str v"
  shows "length vs = length ks \<and> list_all is_str vs"
proof -
  from collect_Inr_D[OF assms(1)] have eq: "map g ks = map Inr vs" .
  then have len: "length vs = length ks"
    by (metis length_map)
  have "is_str v" if "v \<in> set vs" for v
  proof -
    from that have "Inr v \<in> set (map g ks)" unfolding eq by simp
    then obtain k where "g k = Inr v" by auto
    then show ?thesis by (rule assms(2))
  qed
  with len show ?thesis by (simp add: list_all_iff)
qed

text \<open>The shape of every table the transform returns.\<close>

lemma aggregate_Inr_shape:
  assumes "aggregate gc data = Inr table" and "gc = ''Tax Map Parcel ID'' \<or> gc = ''TPIN''"
  shows "\<exists>keys ns as gs.
           table = [(gc, group_keys keys), (''Names'', ns), (''Acres in Unit'', as), (''Gross Acres'', gs)]
         \<and> length ns = length (group_keys keys) \<and> list_all is_str ns
         \<and> length as = length (group_keys keys) \<and> list_all is_str as
         \<and> length gs = length (group_keys keys) \<and> list_all is_str gs"
proof -
  from assms(1) obtain raw where raw: "groupby_agg gc data = Inr raw"
    and table: "table = rename [(''Name'', ''Names''), (''Acres in Unit'', ''Acres in Unit''),
                                (''Gross acres'', ''Gross Acres'')] raw"
    by (cases "groupby_agg gc data") (auto simp: aggregate_def)
  from raw obtain keys names acres gross ns as gs where
        "collect (map (\<lambda>k. agg_name (group_values k keys names)) (group_keys keys)) = Inr ns"
    and "collect (map (\<lambda>k. agg_acres (group_values k keys acres)) (group_keys keys)) = Inr as"
    and "collect (map (\<lambda>k. agg_acres (group_values k keys gross)) (group_keys keys)) = Inr gs"
    and r: "raw = [(gc, group_keys keys), (''Name'', ns), (''Acres in Unit'', as), (''Gross acres'', gs)]"
    by (auto simp: groupby_agg_def Let_def split: option.splits sum.splits)
  then have "length ns = length (group_keys keys) \<and> list_all is_str ns"
    "length as = length (group_keys keys) \<and> list_all is_str as"
    "length gs = length (group_keys keys) \<and> list_all is_str gs"
    using collect_all_str agg_name_Inr_D agg_acres_Inr_D by blast+
  moreover have "table = [(gc, group_keys keys), (''Names'', ns), (''Acres in Unit'', as), (''Gross Acres'', gs)]"
    unfolding table r by (rule rename_output[OF assms(2)])
  ultimately show ?thesis by blast
qed

lemma group_values_distinct_keys:
  assumes "distinct ks" and "length vs = length ks"
  shows "map (\<lambda>k. F (group_values k ks vs)) ks = map (\<lambda>v. F [v]) vs"
  using assms(2,1)
proof (induction vs ks rule: list_induct2)
  case Nil
  then show ?case by simp
next
  case (Cons v vs k ks)
  have "filter (\<lambda>p. fst p = k) (zip ks vs) = []"
    using Cons.prems by (auto simp: filter_empty_conv dest: set_zip_leftD)
  then have head: "group_values k (k # ks) (v # vs) = [v]"
    by (simp add: group_values_def)
  have tail: "group_values k' (k # ks) (v # vs) = group_values k' ks vs" if "k' \<in> set ks" for k'
    using that Cons.prems by (auto simp: group_values_def)
  have "map (\<lambda>k'. F (group_values k' (k # ks) (v # vs))) ks
          = map (\<lambda>k'. F (group_values k' ks vs)) ks"
    by (rule map_cong) (simp_all add: tail)
  with head Cons show ?case by simp
qed

lemma joined_single: "is_str v \<Longrightarrow> Str (join sep (map py_str (unique (dropna [v])))) = v"
  by (cases v) (simp_all add: dropna_def unique_def)

lemma strs_name_ok: "list_all is_str vs \<Longrightarrow> list_all name_ok vs"
  by (simp add: list_all_iff name_ok_def)

lemma aggregate_again:
  assumes gc: "gc = ''Tax Map Parcel ID'' \<or> gc = ''TPIN''"
    and ks: "ks = group_keys keys"
    and ns: "length ns = length ks" "list_all is_str ns"
    and as: "length as = length ks" "list_all is_str as"
    and gs: "length gs = length ks" "list_all is_str gs"
  shows "aggregate gc [(gc, ks), (''Name'', ns), (''Acres in Unit'', as), (''Gross acres'', gs)]
           = Inr [(gc, ks), (''Names'', ns), (''Acres in Unit'', as), (''Gross Acres'', gs)]"
proof -
  let ?data = "[(gc, ks), (''Name'', ns), (''Acres in Unit'', as), (''Gross acres'', gs)]"
  have d: "distinct ks" and s: "sorted (map key_order ks)"
    unfolding ks by (simp_all add: sorted_group_keys)
  then have id: "group_keys ks = ks" by (rule group_keys_id)
  have col: "map (\<lambda>k. Str (join sep (map py_str (unique (dropna (group_values k ks vs)))))) ks = vs"
    if "length vs = length ks" "list_all is_str vs" for vs sep
  proof -
    have "map (\<lambda>k. Str (join sep (map py_str (unique (dropna (group_values k ks vs)))))) ks
            = map (\<lambda>v. Str (join sep (map py_str (unique (dropna [v]))))) vs"
      by (rule group_values_distinct_keys[OF d that(1)])
    also have "\<dots> = map (\<lambda>v. v) vs"
      using that(2) by (intro map_cong refl joined_single) (simp add: list_all_iff)
    finally show ?thesis by simp
  qed
  have "map_of ?data gc = Some ks" by simp
  moreover have "map_of ?data ''Name'' = Some ns" using gc by auto
  moreover have "map_of ?data ''Acres in Unit'' = Some as" using gc by auto
  moreover have "map_of ?data ''Gross acres'' = Some gs" using gc by auto
  ultimately show ?thesis
    using aggregate_ok[OF gc _ _ _ _ strs_name_ok[OF ns(2)], of ?data ks as gs]
    by (simp add: id col ns as gs)
qed

lemma written_table_is_aggregate:
  assumes "ToExcel out table \<in> set (fst (aggregate_data f xl out))"
  shows "\<exists>gc data. (gc = ''Tax Map Parcel ID'' \<or> gc = ''TPIN'') \<and> aggregate gc data = Inr table"
proof (cases "resolve_sheet xl")
  case None
  with assms show ?thesis by (simp add: aggregate_data_no_sheet)
next
  case (Some s)
  show ?thesis
  proof (cases "map_of xl s")
    case None
    with Some assms show ?thesis by (simp add: aggregate_data_def)
  next
    case d: (Some d)
    show ?thesis
    proof (cases "resolve_group_column (strip_columns d)")
      case None
      with Some d assms show ?thesis by (simp add: aggregate_data_no_column)
    next
      case gc: (Some gc)
      let ?data2 = "snd (fill_missing ''Gross acres'' f
                      (snd (fill_missing ''Acres in Unit'' f (strip_columns d))))"
      from assms have "aggregate gc ?data2 = Inr table"
        unfolding aggregate_data_resolved[OF Some d gc] Let_def
        by (cases "aggregate gc ?data2") (auto simp: fst_fill_missing split: if_splits)
      with resolve_group_column_accepted[OF gc] show ?thesis by blast
    qed
  qed
qed

lemma source_labels_trimmed:
  "strip ''Tax Map Parcel ID'' = ''Tax Map Parcel ID''"
  "strip ''TPIN'' = ''TPIN''"
  "strip ''Name'' = ''Name''"
  "strip ''Acres in Unit'' = ''Acres in Unit''"
  "strip ''Gross acres'' = ''Gross acres''"
  by code_simp+

text \<open>
  Claim C7, as stated, fails: the output of an aggregation has the columns \<open>Names\<close> and
  \<open>Gross Acres\<close>, not \<open>Name\<close> and \<open>Gross acres\<close>, so the aggregation applied to it (here as
  the \<open>Mapping\<close> sheet of the next input) warns that the gross-acreage column is missing
  and raises \<open>KeyError\<close> for \<open>Name\<close>; no table is produced.
\<close>

theorem reaggregation_counterexample:
  "ToExcel ''o1.xlsx''
     [(''TPIN'', [Str ''A1'']), (''Names'', [Str ''Smith;Jones'']),
      (''Acres in Unit'', [Str ''10,5'']), (''Gross Acres'', [Str []])]
     \<in> set (fst (aggregate_data ''a.xlsx'' [(''Mapping'', smith_jones)] ''o1.xlsx''))
 \<and> aggregate_data ''o1.xlsx''
       [(''Mapping'',
         [(''TPIN'', [Str ''A1'']), (''Names'', [Str ''Smith;Jones'']),
          (''Acres in Unit'', [Str ''10,5'']), (''Gross Acres'', [Str []])])]
       ''o2.xlsx''
     = ([AddMessage ''Loading sheet names from o1.xlsx...'',
         AddMessage (''Using '' @ quoted ''Mapping'' @ '' sheet for processing.''),
         AddMessage (''Using '' @ quoted ''TPIN'' @ '' as the grouping column.''),
         AddWarning (quoted ''Gross acres'' @ '' column is missing in o1.xlsx. Filling with empty strings.''),
         AddMessage ''Aggregating data...''],
        Inl (KeyError [''Name'']))"
  by code_simp

text \<open>
  Claim C7, amended. Whenever \<open>aggregate_data\<close> writes a table, the aggregation applied to
  that table with its columns under the source names again (\<open>Names\<close> renamed to \<open>Name\<close>,
  \<open>Gross Acres\<close> to \<open>Gross acres\<close>) writes the same table: the keys are already unique and
  sorted, so nothing collapses and nothing moves.
\<close>

theorem reaggregation_under_source_names:
  assumes "ToExcel out1 table \<in> set (fst (aggregate_data f1 xl out1))"
    and "sheet = ''Mapping'' \<or> sheet = ''Lead List''"
  shows "\<exists>t. aggregate_data f2
                [(sheet, rename [(''Names'', ''Name''), (''Gross Acres'', ''Gross acres'')] table)]
                out2 = (t, Inr ())
           \<and> ToExcel out2 table \<in> set t"
proof -
  from written_table_is_aggregate[OF assms(1)] obtain gc data
    where gc: "gc = ''Tax Map Parcel ID'' \<or> gc = ''TPIN''" and "aggregate gc data = Inr table"
    by blast
  from aggregate_Inr_shape[OF this(2,1)] obtain keys ns as gs where
        table: "table = [(gc, group_keys keys), (''Names'', ns), (''Acres in Unit'', as),
                         (''Gross Acres'', gs)]"
    and ns: "length ns = length (group_keys keys)" "list_all is_str ns"
    and as: "length as = length (group_keys keys)" "list_all is_str as"
    and gs: "length gs = length (group_keys keys)" "list_all is_str gs"
    by blast
  let ?src = "[(gc, group_keys keys), (''Name'', ns), (''Acres in Unit'', as), (''Gross acres'', gs)]"
  let ?xl = "[(sheet, rename [(''Names'', ''Name''), (''Gross Acres'', ''Gross acres'')] table)]"
  have renamed: "rename [(''Names'', ''Name''), (''Gross Acres'', ''Gross acres'')] table = ?src"
    unfolding table using gc by (auto simp: rename_def)
  have stripped: "strip_columns ?src = ?src"
    using gc by (auto simp: strip_columns_def source_labels_trimmed)
  have 1: "resolve_sheet ?xl = Some sheet"
    using assms(2) by (auto simp: resolve_sheet_def)
  have 2: "map_of ?xl sheet = Some ?src"
    by (simp add: renamed)
  have 3: "resolve_group_column (strip_columns ?src) = Some gc"
    unfolding stripped using gc by (auto simp: resolve_group_column_def)
  have f1: "fill_missing ''Acres in Unit'' f2 ?src = ([], ?src)"
    by (simp add: fill_missing_def)
  have f2: "fill_missing ''Gross acres'' f2 ?src = ([], ?src)"
    by (simp add: fill_missing_def)
  have again: "aggregate gc ?src = Inr table"
    unfolding table by (rule aggregate_again[OF gc refl ns as gs])
  show ?thesis
    unfolding aggregate_data_resolved[OF 1 2 3] stripped Let_def f1 snd_conv fst_conv f2 again
    by simp
qed

theorem reaggregation_under_source_names_witness:
  "\<exists>t. aggregate_data ''o1.xlsx''
          [(''Mapping'',
            rename [(''Names'', ''Name''), (''Gross Acres'', ''Gross acres'')]
              [(''TPIN'', [Str ''A1'']), (''Names'', [Str ''Smith;Jones'']),
               (''Acres in Unit'', [Str ''10,5'']), (''Gross Acres'', [Str []])])]
          ''o2.xlsx'' = (t, Inr ())
     \<and> ToExcel ''o2.xlsx''
          [(''TPIN'', [Str ''A1'']), (''Names'', [Str ''Smith;Jones'']),
           (''Acres in Unit'', [Str ''10,5'']), (''Gross Acres'', [Str []])] \<in> set t"
proof (rule reaggregation_under_source_names)
  show "ToExcel ''o1.xlsx''
     [(''TPIN'', [Str ''A1'']), (''Names'', [Str ''Smith;Jones'']),
      (''Acres in Unit'', [Str ''10,5'']), (''Gross Acres'', [Str []])]
     \<in> set (fst (aggregate_data ''a.xlsx'' [(''Mapping'', smith_jones)] ''o1.xlsx''))"
    by code_simp
  show "''Mapping'' = ''Mapping'' \<or> ''Mapping'' = ''Lead List''" by simp
qed

end
